theory Spec2Isabelle
  imports Main
begin

section \<open>Clojure values\<close>

text \<open>
  The values the HTTP client of \<^verbatim>\<open>src/metabase/http_client.clj\<close> handles: \<open>nil\<close>,
  booleans, integers, strings, keywords (an optional namespace and a name), vectors and
  maps. A map is the list of its entries in iteration order. Doubles, sets, lists and
  symbols do not occur in the arguments of the client and are left out.

  \<open>integer?\<close> holds of two kinds of integers, which \<open>format\<close> tells apart: \<open>CInt\<close> is an
  integer of one of Java's classes (a \<open>Long\<close>, as the reader makes of \<open>200\<close>), which
  \<open>%d\<close> prints, and \<open>CBigInt\<close> is a \<open>clojure.lang.BigInt\<close> (written \<open>200N\<close>), on which
  \<open>%d\<close> throws.
\<close>

datatype clj =
    CNil
  | CBool bool
  | CInt int
  | CBigInt int
  | CStr string
  | CKw "string option" string
  | CVec "clj list"
  | CMap "(clj \<times> clj) list"

text \<open>
  What can be thrown. \<open>catch Exception\<close> catches every \<open>exn\<close>;
  \<open>catch clojure.lang.ExceptionInfo\<close> catches only \<open>ExceptionInfo\<close>, whose argument is
  the map that \<open>.getData\<close> returns. A failed \<open>:pre\<close> condition throws
  \<open>java.lang.AssertionError\<close>, which is not an \<open>Exception\<close> and passes through both.
  \<open>JavaException c m\<close> is any other exception, of class \<open>c\<close> with message \<open>m\<close>; the
  messages of exceptions that Java and Clojure throw are worded as Java 8 words them.
\<close>

datatype exn = ExceptionInfo clj | JavaException string string

datatype throwable = AssertionError | Exception exn

subsection \<open>Functions of clojure.core\<close>

fun truthy :: "clj \<Rightarrow> bool" where
  "truthy CNil = False"
| "truthy (CBool b) = b"
| "truthy _ = True"

fun is_map :: "clj \<Rightarrow> bool" where
  "is_map (CMap _) = True"
| "is_map _ = False"

fun is_integer :: "clj \<Rightarrow> bool" where
  "is_integer (CInt _) = True"
| "is_integer (CBigInt _) = True"
| "is_integer _ = False"

fun is_string :: "clj \<Rightarrow> bool" where
  "is_string (CStr _) = True"
| "is_string _ = False"


text \<open>The name of the class of a value, as the message of a failed cast or conversion shows it.
  The class of a map depends on how the map was built; the name here is that of a map
  literal and of a map the JSON reader returns, by the number of entries.\<close>

fun java_class :: "clj \<Rightarrow> string" where
  "java_class CNil = ''null''"
| "java_class (CBool b) = ''java.lang.Boolean''"
| "java_class (CInt i) = ''java.lang.Long''"
| "java_class (CBigInt i) = ''clojure.lang.BigInt''"
| "java_class (CStr s) = ''java.lang.String''"
| "java_class (CKw ns n) = ''clojure.lang.Keyword''"
| "java_class (CVec xs) = ''clojure.lang.PersistentVector''"
| "java_class (CMap kvs) =
     (if length kvs \<le> 8 then ''clojure.lang.PersistentArrayMap''
      else ''clojure.lang.PersistentHashMap'')"

text \<open>\<open>(name x)\<close>: the name of a keyword without its namespace, a string as it is, a
  \<open>NullPointerException\<close> on \<open>nil\<close> and a \<open>ClassCastException\<close> on anything else.\<close>

fun name_clj :: "clj \<Rightarrow> exn + string" where
  "name_clj (CKw _ n) = Inr n"
| "name_clj (CStr s) = Inr s"
| "name_clj CNil = Inl (JavaException ''java.lang.NullPointerException'' [])"
| "name_clj x =
     Inl (JavaException ''java.lang.ClassCastException''
            (java_class x @ '' cannot be cast to clojure.lang.Named''))"

text \<open>\<open>(= a b)\<close>: integers are equal when their values are, of whichever kind they are;
  vectors when their elements are; maps when they have as many entries and every entry
  of the first has an equal key with an equal value in the second, in whatever order.\<close>

fun clj_equal :: "clj \<Rightarrow> clj \<Rightarrow> bool" where
  "clj_equal (CInt i) (CInt j) = (i = j)"
| "clj_equal (CInt i) (CBigInt j) = (i = j)"
| "clj_equal (CBigInt i) (CInt j) = (i = j)"
| "clj_equal (CBigInt i) (CBigInt j) = (i = j)"
| "clj_equal (CVec xs) (CVec ys) = list_all2 clj_equal xs ys"
| "clj_equal (CMap m) (CMap n) =
     (length m = length n
      \<and> (\<forall>(k, v) \<in> set m. \<exists>(k', v') \<in> set n. clj_equal k k' \<and> clj_equal v v'))"
| "clj_equal a b = (a = b)"

text \<open>\<open>(get m k)\<close> for a keyword or a string \<open>k\<close>, also written \<open>(k m)\<close>: the value under the
  key, \<open>nil\<close> when there is none or when \<open>m\<close> is not a map.\<close>

fun get_clj :: "clj \<Rightarrow> clj \<Rightarrow> clj" where
  "get_clj (CMap kvs) k =
     (case find (\<lambda>(k', v). clj_equal k' k) kvs of Some (k', v) \<Rightarrow> v | None \<Rightarrow> CNil)"
| "get_clj _ k = CNil"

text \<open>\<open>(empty? x)\<close>; \<open>build-url\<close> applies it to \<open>nil\<close> or a map, as its precondition
  has checked.\<close>

fun is_empty :: "clj \<Rightarrow> bool" where
  "is_empty CNil = True"
| "is_empty (CMap kvs) = (kvs = [])"
| "is_empty (CVec xs) = (xs = [])"
| "is_empty (CStr s) = (s = [])"
| "is_empty _ = False"

text \<open>\<open>(first s)\<close> and \<open>(next s)\<close> on an argument sequence; the empty sequence stands
  for \<open>nil\<close>.\<close>

fun first_clj :: "clj list \<Rightarrow> clj" where
  "first_clj [] = CNil"
| "first_clj (x # _) = x"

fun next_clj :: "clj list \<Rightarrow> clj list" where
  "next_clj [] = []"
| "next_clj (_ # xs) = xs"

fun interpose :: "'a \<Rightarrow> 'a list \<Rightarrow> 'a list" where
  "interpose sep [] = []"
| "interpose sep [x] = [x]"
| "interpose sep (x # y # ys) = x # sep # interpose sep (y # ys)"

text \<open>Decimal numerals, as \<open>str\<close> and the \<open>%d\<close> of \<open>format\<close> print integers.\<close>

definition digit_char :: "nat \<Rightarrow> char" where
  "digit_char n = ''0123456789'' ! n"

fun dec_nat :: "nat \<Rightarrow> string" where
  "dec_nat n = (if n < 10 then [digit_char n] else dec_nat (n div 10) @ [digit_char (n mod 10)])"

declare dec_nat.simps [simp del]

definition dec_int :: "int \<Rightarrow> string" where
  "dec_int i = (if i < 0 then CHR ''-'' # dec_nat (nat (- i)) else dec_nat (nat i))"

text \<open>The printer escapes these characters inside a string that is part of a collection.\<close>

definition char_escape_string :: "char \<Rightarrow> string" where
  "char_escape_string c =
     (if c = CHR 0x0A then [CHR 0x5C, CHR ''n'']
      else if c = CHR 0x09 then [CHR 0x5C, CHR ''t'']
      else if c = CHR 0x0D then [CHR 0x5C, CHR ''r'']
      else if c = CHR 0x22 then [CHR 0x5C, CHR 0x22]
      else if c = CHR 0x5C then [CHR 0x5C, CHR 0x5C]
      else if c = CHR 0x0C then [CHR 0x5C, CHR ''f'']
      else if c = CHR 0x08 then [CHR 0x5C, CHR ''b'']
      else [c])"

definition keyword_text :: "string option \<Rightarrow> string \<Rightarrow> string" where
  "keyword_text ns n = CHR '':'' # (case ns of None \<Rightarrow> n | Some a \<Rightarrow> a @ ''/'' @ n)"

text \<open>\<open>pr_clj\<close> is the readable form (\<open>pr-str\<close>), which \<open>str\<close> uses for the elements of a
  collection.\<close>

fun pr_clj :: "clj \<Rightarrow> string" where
  "pr_clj CNil = ''nil''"
| "pr_clj (CBool b) = (if b then ''true'' else ''false'')"
| "pr_clj (CInt i) = dec_int i"
| "pr_clj (CBigInt i) = dec_int i @ ''N''"
| "pr_clj (CStr s) = CHR 0x22 # concat (map char_escape_string s) @ [CHR 0x22]"
| "pr_clj (CKw ns n) = keyword_text ns n"
| "pr_clj (CVec xs) = ''['' @ concat (interpose '' '' (map pr_clj xs)) @ '']''"
| "pr_clj (CMap kvs) =
     ''{'' @ concat (interpose '', '' (map (\<lambda>(k, v). pr_clj k @ '' '' @ pr_clj v) kvs)) @ ''}''"

text \<open>\<open>(str x)\<close> of one value: \<open>nil\<close> is the empty string and a string is itself.\<close>

fun str_clj :: "clj \<Rightarrow> string" where
  "str_clj CNil = ''''"
| "str_clj (CStr s) = s"
| "str_clj (CBigInt i) = dec_int i"
| "str_clj x = pr_clj x"

text \<open>The \<open>%s\<close> of Java's \<open>String.format\<close>: \<open>null\<close> for \<open>nil\<close>, and the text of the value
  otherwise.\<close>

definition format_s :: "clj \<Rightarrow> string" where
  "format_s x = (if x = CNil then ''null'' else str_clj x)"

text \<open>\<open>(apply str xs)\<close>.\<close>

definition apply_str :: "clj list \<Rightarrow> string" where
  "apply_str xs = concat (map str_clj xs)"

text \<open>\<open>.toUpperCase\<close> on the letters a to z; the method names are made of these.\<close>

definition upper_char :: "char \<Rightarrow> char" where
  "upper_char c =
     (case map_of (zip ''abcdefghijklmnopqrstuvwxyz'' ''ABCDEFGHIJKLMNOPQRSTUVWXYZ'') c of
        Some u \<Rightarrow> u
      | None \<Rightarrow> c)"

definition toUpperCase :: "string \<Rightarrow> string" where
  "toUpperCase s = map upper_char s"

text \<open>\<open>(keyword s)\<close>: the text before the first slash is the namespace, unless there is
  no slash or the string is the slash alone.\<close>

definition keyword :: "string \<Rightarrow> clj" where
  "keyword s =
     (if s = ''/'' \<or> CHR ''/'' \<notin> set s then CKw None s
      else CKw (Some (takeWhile (\<lambda>c. c \<noteq> CHR ''/'') s)) (tl (dropWhile (\<lambda>c. c \<noteq> CHR ''/'') s)))"

text \<open>\<open>(assoc m k v)\<close> on the entries of a map: the value under an existing, equal key is
  replaced in place and the key stays; a new key goes to the end. Small maps iterate in
  this order; the iteration order of a larger (hash) map is not specified by Clojure,
  and the model keeps this one.\<close>

fun assoc :: "(clj \<times> clj) list \<Rightarrow> clj \<Rightarrow> clj \<Rightarrow> (clj \<times> clj) list" where
  "assoc [] k v = [(k, v)]"
| "assoc ((k', v') # m) k v =
     (if clj_equal k' k then (k', v) # m else (k', v') # assoc m k v)"

text \<open>\<open>(into {} pairs)\<close>.\<close>

definition into_map :: "(clj \<times> clj) list \<Rightarrow> (clj \<times> clj) list" where
  "into_map ps = foldl (\<lambda>m (k, v). assoc m k v) [] ps"

text \<open>The keys and values that \<open>(apply hash-map xs)\<close> pairs up: an odd number of
  arguments is an \<open>IllegalArgumentException\<close>, whose message shows the last key with
  \<open>%s\<close>.\<close>

fun kv_pairs :: "clj list \<Rightarrow> exn + (clj \<times> clj) list" where
  "kv_pairs [] = Inr []"
| "kv_pairs [k] =
     Inl (JavaException ''java.lang.IllegalArgumentException''
            (''No value supplied for key: '' @ format_s k))"
| "kv_pairs (k # v # xs) = (case kv_pairs xs of Inl e \<Rightarrow> Inl e | Inr ps \<Rightarrow> Inr ((k, v) # ps))"

subsection \<open>clojure.walk/keywordize-keys\<close>

text \<open>\<open>postwalk\<close> rebuilds every collection from its walked elements (a map from its walked
  entries, keys included) and then, on a map, turns each string key into a keyword.\<close>

definition keywordize_key :: "clj \<times> clj \<Rightarrow> clj \<times> clj" where
  "keywordize_key e = (case e of (CStr s, v) \<Rightarrow> (keyword s, v) | (k, v) \<Rightarrow> (k, v))"

fun keywordize_keys :: "clj \<Rightarrow> clj" where
  "keywordize_keys (CVec xs) = CVec (map keywordize_keys xs)"
| "keywordize_keys (CMap kvs) =
     CMap (into_map (map keywordize_key
       (into_map (map (\<lambda>(k, v). (keywordize_keys k, keywordize_keys v)) kvs))))"
| "keywordize_keys x = x"

section \<open>The HTTP client\<close>

subsection \<open>The environment of a call\<close>

text \<open>
  The world a call runs in: the state of the remote server, of any type \<open>'s\<close>, and the
  requests handed to the transport so far (method, URL and request map), oldest first.
  The lines written with \<open>println\<close> change neither the result nor the requests and are
  not recorded.
\<close>

record 's world =
  server :: 's
  requests :: "(clj \<times> string \<times> clj) list"

text \<open>
  A request function of \<open>clj-http.client\<close> takes the URL and the request map; on the
  server's state it answers with a response map or throws.
\<close>

type_synonym 's request_fn = "string \<Rightarrow> clj \<Rightarrow> 's \<Rightarrow> (exn + clj) \<times> 's"

text \<open>
  What the namespace refers to outside itself: the dynamic variable \<open>*url-prefix*\<close>,
  \<open>json/write-str\<close> and \<open>json/read-str\<close> of \<open>clojure.data.json\<close>, and the four request
  functions of \<open>clj-http.client\<close>. The libraries are parameters of the model; they fail
  by throwing an exception. \<open>hash_order\<close> is the order in which a map built by
  \<open>hash-map\<close> iterates over its entries; it follows the hashes of the keys, which are
  not modelled, and is a parameter too.
\<close>

record 's env =
  url_prefix :: string
  hash_order :: "(clj \<times> clj) list \<Rightarrow> (clj \<times> clj) list"
  json_write_str :: "clj \<Rightarrow> exn + string"
  json_read_str :: "clj \<Rightarrow> exn + clj"
  client_get :: "'s request_fn"
  client_post :: "'s request_fn"
  client_put :: "'s request_fn"
  client_delete :: "'s request_fn"

text \<open>The value \<open>*url-prefix*\<close> is defined with.\<close>

definition default_url_prefix :: string where
  "default_url_prefix = ''http://localhost:3000/api/''"

subsection \<open>Keyword arguments\<close>

text \<open>\<open>(apply hash-map xs)\<close>, which the destructuring \<open>[& {:as m}]\<close> applies to the
  remaining arguments: the entries of the map, in the order a hash map has them.\<close>

definition hash_map :: "'s env \<Rightarrow> clj list \<Rightarrow> exn + clj" where
  "hash_map E xs =
     (case kv_pairs xs of
        Inl e \<Rightarrow> Inl e
      | Inr ps \<Rightarrow> Inr (CMap (hash_order E (into_map ps))))"

text \<open>The binding \<open>[& {:as url-param-kwargs}]\<close>: \<open>nil\<close> when no argument is left.\<close>

definition rest_kwargs :: "'s env \<Rightarrow> clj list \<Rightarrow> exn + clj" where
  "rest_kwargs E xs = (if xs = [] then Inr CNil else hash_map E xs)"

subsection \<open>Optional arguments\<close>

text \<open>
  Modelled from the spec: \<open>u/optional\<close> of \<open>metabase.util\<close>, which \<open>client\<close> calls and
  which is not among the source files. The spec describes the arguments of \<open>client\<close> as
  optional positional arguments, "credentials, expected-status, and body all optional
  and type-sniffed from position": when the predicate holds of the first argument, that
  argument is taken and the others remain; otherwise the optional argument is absent and
  all arguments remain.
\<close>

definition optional :: "(clj \<Rightarrow> bool) \<Rightarrow> clj list \<Rightarrow> clj \<times> clj list" where
  "optional pred args =
     (if pred (first_clj args) then (first_clj args, next_clj args) else (CNil, args))"

subsection \<open>build-url\<close>

text \<open>\<open>(if (keyword? x) (name x) x)\<close>.\<close>

definition name_if_keyword :: "clj \<Rightarrow> clj" where
  "name_if_keyword x = (case x of CKw _ n \<Rightarrow> CStr n | _ \<Rightarrow> x)"

text \<open>The entries \<open>map\<close> iterates over: those of a map, none for \<open>nil\<close>.\<close>

fun entries :: "clj \<Rightarrow> (clj \<times> clj) list" where
  "entries (CMap kvs) = kvs"
| "entries _ = []"

text \<open>The threaded expression of lines 106 to 113, step by step.\<close>

definition query_params :: "clj \<Rightarrow> string" where
  "query_params url_param_kwargs =
     apply_str
       (interpose (CStr ''&'')
         (map (\<lambda>xs. CStr (apply_str xs))
           (map (interpose (CStr ''=''))
             (map (\<lambda>(k, v). [name_if_keyword k, name_if_keyword v])
               (entries url_param_kwargs)))))"

definition build_url :: "'s env \<Rightarrow> clj \<Rightarrow> clj \<Rightarrow> throwable + string" where
  "build_url E url url_param_kwargs =
     (if \<not> (is_string url \<and> (url_param_kwargs = CNil \<or> is_map url_param_kwargs))
      then Inl AssertionError
      else Inr (apply_str
        [CStr (url_prefix E), url,
         (if \<not> is_empty url_param_kwargs
          then CStr (apply_str [CStr ''?'', CStr (query_params url_param_kwargs)])
          else CNil)]))"

subsection \<open>The parts of -client\<close>

text \<open>The \<open>:pre\<close> conditions of \<open>-client\<close>, lines 48 to 57.\<close>

definition verbs :: "clj set" where
  "verbs = {CKw None ''get'', CKw None ''post'', CKw None ''put'', CKw None ''delete''}"

definition client_pre :: "clj \<Rightarrow> clj \<Rightarrow> clj \<Rightarrow> clj \<Rightarrow> clj \<Rightarrow> clj \<Rightarrow> bool" where
  "client_pre credentials method expected_status url http_body url_param_kwargs =
     ((credentials = CNil \<or> is_map credentials)
      \<and> method \<in> verbs
      \<and> (expected_status = CNil \<or> is_integer expected_status)
      \<and> is_string url
      \<and> (http_body = CNil \<or> is_map http_body)
      \<and> (url_param_kwargs = CNil \<or> is_map url_param_kwargs))"

text \<open>The request map of lines 59 to 62, given the session token and the written body.\<close>

definition request_map :: "clj \<Rightarrow> string \<Rightarrow> clj" where
  "request_map token body_text =
     CMap [(CKw None ''content-type'', CKw None ''json''),
           (CKw None ''accept'', CKw None ''json''),
           (CKw None ''headers'', CMap [(CStr ''X-METABASE-SESSION'', token)]),
           (CKw None ''body'', CStr body_text)]"

text \<open>The \<open>case\<close> of lines 63 to 67; it has no default clause, and a value that matches
  none is an \<open>IllegalArgumentException\<close> whose message ends with the \<open>str\<close> of the
  value.\<close>

definition request_fn :: "'s env \<Rightarrow> clj \<Rightarrow> exn + 's request_fn" where
  "request_fn E method =
     (if method = CKw None ''get'' then Inr (client_get E)
      else if method = CKw None ''post'' then Inr (client_post E)
      else if method = CKw None ''put'' then Inr (client_put E)
      else if method = CKw None ''delete'' then Inr (client_delete E)
      else Inl (JavaException ''java.lang.IllegalArgumentException''
                  (''No matching clause: '' @ str_clj method)))"

text \<open>Calling a request function: the request is recorded and the server answers.\<close>

definition call_transport ::
  "'s request_fn \<Rightarrow> clj \<Rightarrow> string \<Rightarrow> clj \<Rightarrow> 's world \<Rightarrow> (exn + clj) \<times> 's world" where
  "call_transport f method url req w =
     (case f url req (server w) of
        (r, s') \<Rightarrow> (r, \<lparr>server = s', requests = requests w @ [(method, url, req)]\<rparr>))"

text \<open>The \<open>try\<close> of lines 72 to 76: an \<open>ExceptionInfo\<close> is caught and the value under
  \<open>:object\<close> of its data stands for the response; another exception passes.\<close>

definition perform_request ::
  "'s request_fn \<Rightarrow> clj \<Rightarrow> string \<Rightarrow> clj \<Rightarrow> 's world \<Rightarrow> (exn + clj) \<times> 's world" where
  "perform_request f method url req w =
     (case call_transport f method url req w of
        (Inr response, w') \<Rightarrow> (Inr response, w')
      | (Inl (ExceptionInfo d), w') \<Rightarrow> (Inr (get_clj d (CKw None ''object'')), w')
      | (Inl e, w') \<Rightarrow> (Inl e, w'))"

text \<open>The \<open>%d\<close> of \<open>format\<close>: an integer of a Java class in decimal, \<open>null\<close> for \<open>nil\<close>,
  and an \<open>IllegalFormatConversionException\<close> for any other value, a
  \<open>clojure.lang.BigInt\<close> among them.\<close>

fun format_d :: "clj \<Rightarrow> exn + string" where
  "format_d (CInt i) = Inr (dec_int i)"
| "format_d CNil = Inr ''null''"
| "format_d x =
     Inl (JavaException ''java.util.IllegalFormatConversionException'' (''d != '' @ java_class x))"

text \<open>\<open>(format "%s %s expected a status code of %d, got %d" ...)\<close> of line 83.\<close>

definition status_message :: "string \<Rightarrow> string \<Rightarrow> clj \<Rightarrow> clj \<Rightarrow> exn + string" where
  "status_message method_name url expected_status status =
     (case format_d expected_status of
        Inl e \<Rightarrow> Inl e
      | Inr expected \<Rightarrow>
          (case format_d status of
             Inl e \<Rightarrow> Inl e
           | Inr got \<Rightarrow>
               Inr (method_name @ '' '' @ url @ '' expected a status code of '' @ expected
                    @ '', got '' @ got)))"

text \<open>The check of lines 80 to 83: the exception thrown, if any.\<close>

definition check_status :: "string \<Rightarrow> string \<Rightarrow> clj \<Rightarrow> clj \<Rightarrow> exn option" where
  "check_status method_name url expected_status status =
     (if truthy expected_status then
        (if \<not> clj_equal status expected_status then
           (case status_message method_name url expected_status status of
              Inl e \<Rightarrow> Some e
            | Inr m \<Rightarrow> Some (JavaException ''java.lang.Exception'' m))
         else None)
      else None)"

text \<open>The \<open>try\<close> of lines 86 to 90: the parsed body with keywords for keys, or the body
  as it is when reading it throws.\<close>

definition deserialize :: "'s env \<Rightarrow> clj \<Rightarrow> clj" where
  "deserialize E body =
     (case json_read_str E body of
        Inr v \<Rightarrow> keywordize_keys v
      | Inl _ \<Rightarrow> body)"

text \<open>
  \<open>-client\<close> from the point where the session token is known: the remaining bindings of
  the \<open>let\<close> in their order (the request map, the request function, the URL, the method
  name, the response) and its body.
\<close>

definition client_request ::
  "'s env \<Rightarrow> clj \<Rightarrow> clj \<Rightarrow> clj \<Rightarrow> clj \<Rightarrow> clj \<Rightarrow> clj \<Rightarrow> 's world \<Rightarrow> (throwable + clj) \<times> 's world" where
  "client_request E token method expected_status url http_body url_param_kwargs w =
     (case json_write_str E http_body of
        Inl e \<Rightarrow> (Inl (Exception e), w)
      | Inr body_text \<Rightarrow>
     (case request_fn E method of
        Inl e \<Rightarrow> (Inl (Exception e), w)
      | Inr f \<Rightarrow>
     (case build_url E url url_param_kwargs of
        Inl t \<Rightarrow> (Inl t, w)
      | Inr full_url \<Rightarrow>
     (case name_clj method of
        Inl e \<Rightarrow> (Inl (Exception e), w)
      | Inr n \<Rightarrow>
     (case perform_request f method full_url (request_map token body_text) w of
        (Inl e, w') \<Rightarrow> (Inl (Exception e), w')
      | (Inr response, w') \<Rightarrow>
     (case check_status (toUpperCase n) full_url expected_status
             (get_clj response (CKw None ''status'')) of
        Some e \<Rightarrow> (Inl (Exception e), w')
      | None \<Rightarrow> (Inr (deserialize E (get_clj response (CKw None ''body''))), w')))))))"

subsection \<open>-client, authenticate and client\<close>

text \<open>
  The three functions call each other: \<open>-client\<close> authenticates when credentials are
  given, \<open>authenticate\<close> calls \<open>client\<close>, and \<open>client\<close> sorts out its arguments and calls
  \<open>-client\<close>. \<open>client_impl\<close> is \<open>-client\<close>.
\<close>

function
  client_impl ::
    "'s env \<Rightarrow> clj \<Rightarrow> clj \<Rightarrow> clj \<Rightarrow> clj \<Rightarrow> clj \<Rightarrow> clj \<Rightarrow> 's world \<Rightarrow> (throwable + clj) \<times> 's world"
  and authenticate :: "'s env \<Rightarrow> clj \<Rightarrow> 's world \<Rightarrow> (throwable + clj) \<times> 's world"
  and client :: "'s env \<Rightarrow> clj list \<Rightarrow> 's world \<Rightarrow> (throwable + clj) \<times> 's world"
where
  "client_impl E credentials method expected_status url http_body url_param_kwargs w =
     (if \<not> client_pre credentials method expected_status url http_body url_param_kwargs
      then (Inl AssertionError, w)
      else
        (case (if truthy credentials then authenticate E credentials w else (Inr CNil, w)) of
           (Inl t, w1) \<Rightarrow> (Inl t, w1)
         | (Inr token, w1) \<Rightarrow>
             client_request E token method expected_status url http_body url_param_kwargs w1))"
| "authenticate E credentials w =
     (if \<not> (is_string (get_clj credentials (CKw None ''email''))
             \<and> is_string (get_clj credentials (CKw None ''password'')))
      then (Inl AssertionError, w)
      else
        (case client E [CKw None ''post'', CInt 200, CStr ''session'', credentials] w of
           (Inr r, w1) \<Rightarrow> (Inr (get_clj r (CKw None ''id'')), w1)
         | (Inl (Exception e), w1) \<Rightarrow> (Inr CNil, w1)
         | (Inl AssertionError, w1) \<Rightarrow> (Inl AssertionError, w1)))"
| "client E args w =
     (case optional is_map args of (credentials, r0) \<Rightarrow>
      (case optional is_integer (next_clj r0) of (expected_status, r1) \<Rightarrow>
       (case optional is_map (next_clj r1) of (body, r2) \<Rightarrow>
        (case rest_kwargs E r2 of
           Inl e \<Rightarrow> (Inl (Exception e), w)
         | Inr url_param_kwargs \<Rightarrow>
             client_impl E credentials (first_clj r0) expected_status (first_clj r1) body
               url_param_kwargs w))))"
  by pat_completeness auto
termination
  by (relation "measure (\<lambda>x. case x of
         Inl (E, credentials, method, expected_status, url, http_body, url_param_kwargs, w) \<Rightarrow>
           (if truthy credentials then 3 else 0)
       | Inr (Inl (E, credentials, w)) \<Rightarrow> 2
       | Inr (Inr (E, args, w)) \<Rightarrow> (if is_map (first_clj args) then 4 else 1))")
     (auto simp: optional_def split: if_splits)

declare client_impl.simps [simp del] authenticate.simps [simp del] client.simps [simp del]

subsection \<open>A sample environment\<close>

text \<open>
  A concrete environment to run the client in: a server that answers the requests it
  receives with the entries of a script, one after the other, and refuses the connection
  when the script is used up; a writer of JSON text for the values above; and a reader
  that knows the documents of a table and fails on every other text.
\<close>

definition scripted :: "((exn + clj) list) request_fn" where
  "scripted url req s =
     (case s of
        [] \<Rightarrow> (Inl (JavaException ''java.net.ConnectException'' ''Connection refused''), [])
      | r # rs \<Rightarrow> (r, rs))"

fun sample_write :: "clj \<Rightarrow> string" where
  "sample_write CNil = ''null''"
| "sample_write (CBool b) = (if b then ''true'' else ''false'')"
| "sample_write (CInt i) = dec_int i"
| "sample_write (CBigInt i) = dec_int i"
| "sample_write (CStr s) = pr_clj (CStr s)"
| "sample_write (CKw ns n) = pr_clj (CStr n)"
| "sample_write (CVec xs) = ''['' @ concat (interpose '','' (map sample_write xs)) @ '']''"
| "sample_write (CMap kvs) =
     ''{'' @ concat (interpose '',''
        (map (\<lambda>(k, v). pr_clj (CStr (str_clj (name_if_keyword k))) @ '':'' @ sample_write v) kvs))
     @ ''}''"

definition sample_read :: "(string \<times> clj) list \<Rightarrow> clj \<Rightarrow> exn + clj" where
  "sample_read table x =
     (case x of
        CStr s \<Rightarrow>
          (case map_of table s of
             Some v \<Rightarrow> Inr v
           | None \<Rightarrow> Inl (JavaException ''java.lang.Exception'' ''JSON error''))
      | _ \<Rightarrow> Inl (JavaException ''java.lang.NullPointerException'' []))"

definition sample_documents :: "(string \<times> clj) list" where
  "sample_documents =
     [(''{\"id\":5}'', CMap [(CStr ''id'', CInt 5)]),
      (''{\"id\":\"abc\"}'', CMap [(CStr ''id'', CStr ''abc'')])]"

definition sample_env :: "((exn + clj) list) env" where
  "sample_env =
     \<lparr>url_prefix = default_url_prefix,
      hash_order = (\<lambda>entries. entries),
      json_write_str = (\<lambda>x. Inr (sample_write x)),
      json_read_str = sample_read sample_documents,
      client_get = scripted, client_post = scripted,
      client_put = scripted, client_delete = scripted\<rparr>"

definition start :: "(exn + clj) list \<Rightarrow> ((exn + clj) list) world" where
  "start script = \<lparr>server = script, requests = []\<rparr>"

definition sample_response :: "int \<Rightarrow> string \<Rightarrow> clj" where
  "sample_response status body =
     CMap [(CKw None ''status'', CInt status), (CKw None ''body'', CStr body)]"

subsection \<open>Notions of the specification\<close>

text \<open>
  The specification of \<open>buildUrl\<close> speaks of \<open>key=value\<close> pairs joined by \<open>&\<close>, with
  symbolic keys and values in their plain string form. \<open>plain_name\<close> is that form and
  \<open>joined\<close> puts a separator between the members of a list of strings.
\<close>

fun plain_name :: "clj \<Rightarrow> string" where
  "plain_name (CKw ns n) = n"
| "plain_name (CStr s) = s"
| "plain_name x = str_clj x"

fun joined :: "string \<Rightarrow> string list \<Rightarrow> string" where
  "joined sep [] = []"
| "joined sep [x] = x"
| "joined sep (x # y # ys) = x @ sep @ joined sep (y # ys)"




section \<open>Properties\<close>

subsection \<open>Auxiliary facts\<close>

lemma str_name_if_keyword: "str_clj (name_if_keyword x) = plain_name x"
  by (cases x) (simp_all add: name_if_keyword_def)

lemma apply_str_interpose: "apply_str (interpose (CStr sep) (map CStr xs)) = joined sep xs"
  by (induction sep xs rule: joined.induct) (simp_all add: apply_str_def)

lemma query_params_joined:
  "query_params (CMap kvs) =
     joined ''&'' (map (\<lambda>(k, v). plain_name k @ ''='' @ plain_name v) kvs)"
proof -
  let ?pair = "\<lambda>(k, v). plain_name k @ ''='' @ plain_name v"
  have "map (\<lambda>xs. CStr (apply_str xs))
          (map (interpose (CStr ''=''))
            (map (\<lambda>(k, v). [name_if_keyword k, name_if_keyword v]) kvs))
        = map CStr (map ?pair kvs)"
    by (induction kvs) (auto simp: apply_str_def str_name_if_keyword)
  then have "query_params (CMap kvs) = apply_str (interpose (CStr ''&'') (map CStr (map ?pair kvs)))"
    unfolding query_params_def entries.simps by (rule arg_cong)
  then show ?thesis
    by (simp only: apply_str_interpose)
qed

lemma client_impl_pre_fails:
  "\<not> client_pre c m es u b ps \<Longrightarrow> client_impl E c m es u b ps w = (Inl AssertionError, w)"
  by (simp add: client_impl.simps)

lemma client_impl_unfold:
  "client_pre c m es u b ps \<Longrightarrow>
     client_impl E c m es u b ps w =
       (case (if truthy c then authenticate E c w else (Inr CNil, w)) of
          (Inl t, w1) \<Rightarrow> (Inl t, w1)
        | (Inr token, w1) \<Rightarrow> client_request E token m es u b ps w1)"
  by (simp add: client_impl.simps)

lemma client_impl_token:
  assumes "client_pre c m es u b ps"
    and "(if truthy c then authenticate E c w else (Inr CNil, w)) = (Inr token, w1)"
  shows "client_impl E c m es u b ps w = client_request E token m es u b ps w1"
  using assms by (simp add: client_impl_unfold)

lemma client_request_responded:
  assumes "json_write_str E b = Inr body_text"
    and "request_fn E m = Inr f"
    and "build_url E u ps = Inr full_url"
    and "name_clj m = Inr n"
    and "perform_request f m full_url (request_map token body_text) w = (Inr response, w')"
  shows "client_request E token m es u b ps w =
    (case check_status (toUpperCase n) full_url es (get_clj response (CKw None ''status'')) of
       Some e \<Rightarrow> (Inl (Exception e), w')
     | None \<Rightarrow> (Inr (deserialize E (get_clj response (CKw None ''body''))), w'))"
  using assms by (simp add: client_request_def)

lemma client_request_failed:
  assumes "json_write_str E b = Inr body_text"
    and "request_fn E m = Inr f"
    and "build_url E u ps = Inr full_url"
    and "name_clj m = Inr n"
    and "perform_request f m full_url (request_map token body_text) w = (Inl e, w')"
  shows "client_request E token m es u b ps w = (Inl (Exception e), w')"
  using assms by (simp add: client_request_def)

lemma verbs_request_fn: "m \<in> verbs \<Longrightarrow> \<exists>f. request_fn E m = Inr f"
  by (auto simp: verbs_def request_fn_def)

lemma verbs_name: "m \<in> verbs \<Longrightarrow> \<exists>n. name_clj m = Inr n"
  by (auto simp: verbs_def)

lemma requests_perform_request:
  "requests (snd (perform_request f m full_url req w)) = requests w @ [(m, full_url, req)]"
  by (simp add: perform_request_def call_transport_def split: prod.splits sum.splits exn.splits)

lemma client_request_requests:
  assumes "json_write_str E b = Inr body_text"
    and "m \<in> verbs"
    and "build_url E u ps = Inr full_url"
  shows "requests (snd (client_request E token m es u b ps w)) =
           requests w @ [(m, full_url, request_map token body_text)]"
proof -
  obtain f where f: "request_fn E m = Inr f" using verbs_request_fn [OF assms(2)] by blast
  obtain n where n: "name_clj m = Inr n" using verbs_name [OF assms(2)] by blast
  obtain r w' where p: "perform_request f m full_url (request_map token body_text) w = (r, w')"
    by (cases "perform_request f m full_url (request_map token body_text) w")
  have w': "requests w' = requests w @ [(m, full_url, request_map token body_text)]"
    using requests_perform_request [of f m full_url "request_map token body_text" w] p by simp
  show ?thesis
    using assms(1,3) f n p w'
    by (cases r) (simp_all add: client_request_def split: option.splits)
qed

lemma client_request_not_assertion:
  assumes "build_url E u ps = Inr full_url"
  shows "fst (client_request E token m es u b ps w) \<noteq> Inl AssertionError"
  using assms
  by (simp add: client_request_def split: sum.splits prod.splits option.splits)

lemma client_session:
  assumes "is_map credentials"
  shows "client E [CKw None ''post'', CInt 200, CStr ''session'', credentials] w =
         client_impl E CNil (CKw None ''post'') (CInt 200) (CStr ''session'') credentials CNil w"
  using assms by (simp add: client.simps optional_def rest_kwargs_def)

lemma client_pre_session:
  "is_map credentials \<Longrightarrow>
     client_pre CNil (CKw None ''post'') (CInt 200) (CStr ''session'') credentials CNil"
  by (simp add: client_pre_def verbs_def)

lemma has_key_is_map: "is_string (get_clj c k) \<Longrightarrow> is_map c"
  by (cases c) simp_all

lemma build_url_session: "build_url E (CStr ''session'') CNil = Inr (url_prefix E @ ''session'')"
  by (simp add: build_url_def apply_str_def)

lemma session_call:
  assumes "is_map credentials"
  shows "client E [CKw None ''post'', CInt 200, CStr ''session'', credentials] w =
         client_request E CNil (CKw None ''post'') (CInt 200) (CStr ''session'') credentials CNil w"
  using assms by (simp add: client_session client_impl_unfold client_pre_session)

lemma authenticate_valid:
  assumes "is_string (get_clj credentials (CKw None ''email''))"
    and "is_string (get_clj credentials (CKw None ''password''))"
  shows "authenticate E credentials w =
    (case client_request E CNil (CKw None ''post'') (CInt 200) (CStr ''session'') credentials CNil w of
       (Inr r, w1) \<Rightarrow> (Inr (get_clj r (CKw None ''id'')), w1)
     | (Inl t, w1) \<Rightarrow> (Inr CNil, w1))"
proof -
  have m: "is_map credentials" using assms(1) by (rule has_key_is_map)
  have "fst (client_request E CNil (CKw None ''post'') (CInt 200) (CStr ''session'') credentials CNil w)
          \<noteq> Inl AssertionError"
    by (rule client_request_not_assertion [OF build_url_session])
  then show ?thesis
    using assms
    by (auto simp: authenticate.simps session_call [OF m] split: prod.splits sum.splits throwable.splits)
qed


lemma clj_equal_refl: "clj_equal x x"
proof (induction x)
  case (CVec xs)
  then show ?case by (simp add: list.rel_refl_strong)
next
  case (CMap m)
  have "\<exists>(k', v') \<in> set m. clj_equal k k' \<and> clj_equal v v'" if "(k, v) \<in> set m" for k v
  proof -
    have "clj_equal k k" and "clj_equal v v"
      using CMap.IH that by fastforce+
    then show ?thesis using that by blast
  qed
  then show ?case by auto
qed simp_all











lemma sample_env_simps:
  "url_prefix sample_env = ''http://localhost:3000/api/''"
  "hash_order sample_env kvs = kvs"
  "json_write_str sample_env x = Inr (sample_write x)"
  "json_read_str sample_env = sample_read sample_documents"
  "client_get sample_env = scripted"
  "client_post sample_env = scripted"
  "client_put sample_env = scripted"
  "client_delete sample_env = scripted"
  by (simp_all add: sample_env_def default_url_prefix_def)

lemma authenticate_snd:
  assumes "is_string (get_clj credentials (CKw None ''email''))"
    and "is_string (get_clj credentials (CKw None ''password''))"
  shows "snd (authenticate E credentials w) =
         snd (client_request E CNil (CKw None ''post'') (CInt 200) (CStr ''session'') credentials CNil w)"
  using assms by (simp add: authenticate_valid split: prod.splits sum.splits)

lemma authenticate_not_assertion:
  assumes "is_string (get_clj credentials (CKw None ''email''))"
    and "is_string (get_clj credentials (CKw None ''password''))"
  shows "fst (authenticate E credentials w) \<noteq> Inl AssertionError"
  using assms by (simp add: authenticate_valid split: prod.splits sum.splits)

lemma authenticate_pre_fails:
  assumes "\<not> (is_string (get_clj credentials (CKw None ''email''))
             \<and> is_string (get_clj credentials (CKw None ''password'')))"
  shows "authenticate E credentials w = (Inl AssertionError, w)"
  using assms by (simp add: authenticate.simps)

lemmas run_simps =
  client.simps client_impl.simps authenticate.simps optional_def rest_kwargs_def
  client_pre_def verbs_def client_request_def sample_env_simps request_fn_def build_url_def
  apply_str_def perform_request_def call_transport_def scripted_def start_def
  check_status_def status_message_def deserialize_def sample_read_def sample_documents_def
  sample_response_def toUpperCase_def upper_char_def dec_int_def dec_nat.simps digit_char_def
  name_if_keyword_def char_escape_string_def into_map_def keywordize_key_def keyword_def

lemma client_pre_without_credentials:
  "client_pre c m es u b ps \<Longrightarrow> client_pre CNil m es u b ps"
  by (simp add: client_pre_def)

subsection \<open>build-url\<close>

text \<open>
  C4. For every string path and every non-empty mapping of query parameters, \<open>build-url\<close>
  returns the prefix, the path, a question mark and the \<open>key=value\<close> pairs joined by
  \<open>&\<close> in the iteration order of the mapping. A keyword key or value appears as its plain
  name, and a string appears as it is: nothing is encoded or escaped.
\<close>

theorem build_url_with_params:
  "kvs \<noteq> [] \<Longrightarrow>
     build_url E (CStr path) (CMap kvs) =
       Inr (url_prefix E @ path @ ''?'' @
            joined ''&'' (map (\<lambda>(k, v). plain_name k @ ''='' @ plain_name v) kvs))"
  by (simp add: build_url_def apply_str_def query_params_joined)

theorem build_url_with_params_witness:
  "build_url sample_env (CStr ''card'')
     (CMap [(CKw None ''org'', CKw None ''acme''), (CStr ''q'', CStr ''a b&c=d/%'')]) =
   Inr ''http://localhost:3000/api/card?org=acme&q=a b&c=d/%''"
  using build_url_with_params
    [of "[(CKw None ''org'', CKw None ''acme''), (CStr ''q'', CStr ''a b&c=d/%'')]"
        sample_env "''card''"]
  by (simp add: sample_env_def default_url_prefix_def)

text \<open>
  C5. For every string path, when no query parameters are supplied (\<open>nil\<close> or an empty
  mapping), \<open>build-url\<close> returns exactly the configured prefix followed by the path, with
  no question mark.
\<close>

theorem build_url_without_params:
  "build_url E (CStr path) CNil = Inr (url_prefix E @ path)
   \<and> build_url E (CStr path) (CMap []) = Inr (url_prefix E @ path)"
  by (simp add: build_url_def apply_str_def)

subsection \<open>The method\<close>

text \<open>
  C8. For every method outside \<open>:get\<close>, \<open>:post\<close>, \<open>:put\<close> and \<open>:delete\<close>, \<open>-client\<close> fails
  with an \<open>AssertionError\<close> and leaves the world as it was: no request has been issued.
  For each of the four methods the condition on the method holds, so that the
  precondition is that of the other arguments, and the request function of that method
  is selected.
\<close>

theorem invalid_method_fails_fast:
  "(method \<notin> verbs \<longrightarrow>
      client_impl E credentials method expected_status url http_body url_param_kwargs w
        = (Inl AssertionError, w))
   \<and> (method \<in> verbs \<longrightarrow>
        (\<exists>f. request_fn E method = Inr f)
        \<and> client_pre credentials method expected_status url http_body url_param_kwargs
          = ((credentials = CNil \<or> is_map credentials)
             \<and> (expected_status = CNil \<or> is_integer expected_status)
             \<and> is_string url
             \<and> (http_body = CNil \<or> is_map http_body)
             \<and> (url_param_kwargs = CNil \<or> is_map url_param_kwargs)))
   \<and> request_fn E (CKw None ''get'') = Inr (client_get E)
   \<and> request_fn E (CKw None ''post'') = Inr (client_post E)
   \<and> request_fn E (CKw None ''put'') = Inr (client_put E)
   \<and> request_fn E (CKw None ''delete'') = Inr (client_delete E)"
proof -
  have "method \<notin> verbs \<Longrightarrow>
      client_impl E credentials method expected_status url http_body url_param_kwargs w
        = (Inl AssertionError, w)"
    by (rule client_impl_pre_fails) (simp add: client_pre_def)
  moreover have "method \<in> verbs \<Longrightarrow> \<exists>f. request_fn E method = Inr f"
    by (rule verbs_request_fn)
  moreover have "method \<in> verbs \<Longrightarrow>
      client_pre credentials method expected_status url http_body url_param_kwargs
          = ((credentials = CNil \<or> is_map credentials)
             \<and> (expected_status = CNil \<or> is_integer expected_status)
             \<and> is_string url
             \<and> (http_body = CNil \<or> is_map http_body)
             \<and> (url_param_kwargs = CNil \<or> is_map url_param_kwargs))"
    by (simp add: client_pre_def)
  ultimately show ?thesis
    by (simp add: request_fn_def)
qed

theorem invalid_method_fails_fast_witness:
  "client_impl sample_env CNil (CKw None ''patch'') (CInt 200) (CStr ''card/1'') CNil CNil
     (start [Inr (sample_response 200 ''{\"id\":5}'')])
     = (Inl AssertionError, start [Inr (sample_response 200 ''{\"id\":5}'')])
   \<and> (\<exists>f. request_fn sample_env (CKw None ''put'') = Inr f)
   \<and> client_pre CNil (CKw None ''put'') (CInt 200) (CStr ''card/1'') CNil CNil"
  using invalid_method_fails_fast
    [of "CKw None ''patch''" sample_env CNil "CInt 200" "CStr ''card/1''" CNil CNil
        "start [Inr (sample_response 200 ''{\"id\":5}'')]"]
    invalid_method_fails_fast
    [of "CKw None ''put''" sample_env CNil "CInt 200" "CStr ''card/1''" CNil CNil
        "start [Inr (sample_response 200 ''{\"id\":5}'')]"]
  by (simp add: verbs_def)

subsection \<open>The expected status\<close>





subsection \<open>The response body\<close>



subsection \<open>Exceptions of the transport\<close>

text \<open>
  C9, as the source has it. When the request function throws an \<open>ExceptionInfo\<close>,
  \<open>-client\<close> catches it and takes the value under \<open>:object\<close> of its data as the response
  to check and to parse, whether or not the data has such an entry. An exception that is
  not an \<open>ExceptionInfo\<close> propagates to the caller.
\<close>

theorem transport_exception_handled:
  assumes pre: "client_pre credentials method expected_status url http_body url_param_kwargs"
    and token: "(if truthy credentials then authenticate E credentials w else (Inr CNil, w))
                  = (Inr token, w1)"
    and body_text: "json_write_str E http_body = Inr body_text"
    and f: "request_fn E method = Inr f"
    and full_url: "build_url E url url_param_kwargs = Inr full_url"
    and n: "name_clj method = Inr n"
    and thrown: "call_transport f method full_url (request_map token body_text) w1 = (Inl e, w2)"
  shows
    "client_impl E credentials method expected_status url http_body url_param_kwargs w =
       (case e of
          ExceptionInfo d \<Rightarrow>
            (case check_status (toUpperCase n) full_url expected_status
                    (get_clj (get_clj d (CKw None ''object'')) (CKw None ''status'')) of
               Some x \<Rightarrow> (Inl (Exception x), w2)
             | None \<Rightarrow>
                 (Inr (deserialize E (get_clj (get_clj d (CKw None ''object'')) (CKw None ''body''))),
                  w2))
        | JavaException c m \<Rightarrow> (Inl (Exception (JavaException c m)), w2))"
proof (cases e)
  case (ExceptionInfo d)
  have "perform_request f method full_url (request_map token body_text) w1
          = (Inr (get_clj d (CKw None ''object'')), w2)"
    using thrown ExceptionInfo by (simp add: perform_request_def)
  then show ?thesis
    using client_impl_token [OF pre token]
      client_request_responded [OF body_text f full_url n] ExceptionInfo
    by simp
next
  case (JavaException c m)
  have "perform_request f method full_url (request_map token body_text) w1 = (Inl e, w2)"
    using thrown JavaException by (simp add: perform_request_def)
  then show ?thesis
    using client_impl_token [OF pre token]
      client_request_failed [OF body_text f full_url n] JavaException
    by simp
qed

theorem transport_exception_handled_witness:
  "client_impl sample_env CNil (CKw None ''get'') (CInt 200) (CStr ''card/1'') CNil CNil
       (start [Inl (ExceptionInfo (CMap [(CKw None ''object'', sample_response 404 ''Not found'')]))])
     = (Inl (Exception (JavaException ''java.lang.Exception''
          ''GET http://localhost:3000/api/card/1 expected a status code of 200, got 404'')),
        \<lparr>server = [],
         requests = [(CKw None ''get'', ''http://localhost:3000/api/card/1'',
                      request_map CNil ''null'')]\<rparr>)
   \<and> client_impl sample_env CNil (CKw None ''get'') (CInt 200) (CStr ''card/1'') CNil CNil
       (start [])
     = (Inl (Exception (JavaException ''java.net.ConnectException'' ''Connection refused'')),
        \<lparr>server = [],
         requests = [(CKw None ''get'', ''http://localhost:3000/api/card/1'',
                      request_map CNil ''null'')]\<rparr>)"
proof -
  let ?d = "CMap [(CKw None ''object'', sample_response 404 ''Not found'')]"
  let ?w2 = "\<lparr>server = [] :: (exn + clj) list,
       requests = [(CKw None ''get'', ''http://localhost:3000/api/card/1'',
                    request_map CNil ''null'')]\<rparr>"
  have pre: "client_pre CNil (CKw None ''get'') (CInt 200) (CStr ''card/1'') CNil CNil"
    by (simp add: client_pre_def verbs_def)
  have token: "(if truthy CNil then authenticate sample_env CNil (start script)
                else (Inr CNil, start script)) = (Inr CNil, start script)" for script
    by simp
  have body_text: "json_write_str sample_env CNil = Inr ''null''"
    by (simp add: sample_env_simps)
  have f: "request_fn sample_env (CKw None ''get'') = Inr scripted"
    by (simp add: request_fn_def sample_env_simps)
  have full_url: "build_url sample_env (CStr ''card/1'') CNil = Inr ''http://localhost:3000/api/card/1''"
    by (simp add: build_url_def apply_str_def sample_env_simps)
  have n: "name_clj (CKw None ''get'') = Inr ''get''"
    by simp
  have info: "call_transport scripted (CKw None ''get'') ''http://localhost:3000/api/card/1''
                (request_map CNil ''null'') (start [Inl (ExceptionInfo ?d)])
              = (Inl (ExceptionInfo ?d), ?w2)"
    by (simp add: call_transport_def scripted_def start_def)
  have refused: "call_transport scripted (CKw None ''get'') ''http://localhost:3000/api/card/1''
                (request_map CNil ''null'') (start [])
              = (Inl (JavaException ''java.net.ConnectException'' ''Connection refused''), ?w2)"
    by (simp add: call_transport_def scripted_def start_def)
  have check: "check_status (toUpperCase ''get'') ''http://localhost:3000/api/card/1'' (CInt 200)
                 (get_clj (get_clj ?d (CKw None ''object'')) (CKw None ''status''))
               = Some (JavaException ''java.lang.Exception''
          ''GET http://localhost:3000/api/card/1 expected a status code of 200, got 404'')"
    by (simp add: check_status_def status_message_def sample_response_def toUpperCase_def
        upper_char_def dec_int_def dec_nat.simps digit_char_def)
  show ?thesis
    using transport_exception_handled
        [OF pre token body_text f full_url n info, unfolded exn.case check option.case]
      transport_exception_handled [OF pre token body_text f full_url n refused]
    by simp
qed

text \<open>
  C9 as stated lets a transport failure from which no payload can be recovered
  propagate. It does not when the failure is an \<open>ExceptionInfo\<close> whose data has no
  \<open>:object\<close>: the response is then \<open>nil\<close>, and a call without expected status returns
  \<open>nil\<close>.
\<close>

theorem exception_info_without_object_counterexample:
  "get_clj (CMap []) (CKw None ''object'') = CNil
   \<and> client_impl sample_env CNil (CKw None ''get'') CNil (CStr ''card/1'') CNil CNil
       (start [Inl (ExceptionInfo (CMap []))])
     = (Inr CNil,
        \<lparr>server = [],
         requests = [(CKw None ''get'', ''http://localhost:3000/api/card/1'',
                      request_map CNil ''null'')]\<rparr>)"
  by (simp add: client_impl.simps client_pre_def verbs_def client_request_def sample_env_simps
      request_fn_def build_url_def apply_str_def perform_request_def call_transport_def
      scripted_def start_def check_status_def deserialize_def sample_read_def)


subsection \<open>The request body\<close>

text \<open>
  C10. Take any call of \<open>-client\<close> that passes its precondition, obtains its session token
  and whose body \<open>json/write-str\<close> writes. The call hands exactly one request to the
  transport, for its method and URL, and the \<open>:body\<close> of that request is the written
  text of the body argument. Without a body, where \<open>json/write-str\<close> writes \<open>nil\<close> as
  \<open>null\<close>, the request body is the string \<open>null\<close>, for every method.
\<close>

theorem request_body_written:
  assumes pre: "client_pre credentials method expected_status url http_body url_param_kwargs"
    and token: "(if truthy credentials then authenticate E credentials w else (Inr CNil, w))
                  = (Inr token, w1)"
    and body_text: "json_write_str E http_body = Inr body_text"
    and full_url: "build_url E url url_param_kwargs = Inr full_url"
  shows
    "requests (snd (client_impl E credentials method expected_status url http_body
                      url_param_kwargs w))
       = requests w1 @ [(method, full_url, request_map token body_text)]
     \<and> get_clj (request_map token body_text) (CKw None ''body'') = CStr body_text
     \<and> (http_body = CNil \<and> json_write_str E CNil = Inr ''null'' \<longrightarrow>
          get_clj (request_map token body_text) (CKw None ''body'') = CStr ''null'')"
proof -
  have verb: "method \<in> verbs"
    using pre by (simp add: client_pre_def)
  have "requests (snd (client_impl E credentials method expected_status url http_body
                      url_param_kwargs w))
       = requests w1 @ [(method, full_url, request_map token body_text)]"
    using client_impl_token [OF pre token] client_request_requests [OF body_text verb full_url]
    by simp
  moreover have "get_clj (request_map token body_text) (CKw None ''body'') = CStr body_text"
    by (simp add: request_map_def)
  ultimately show ?thesis
    using body_text by auto
qed

theorem request_body_written_witness:
  "requests (snd (client_impl sample_env CNil (CKw None ''delete'') CNil (CStr ''card/1'') CNil CNil
               (start [Inr (sample_response 204 [])])))
     = [(CKw None ''delete'', ''http://localhost:3000/api/card/1'', request_map CNil ''null'')]
   \<and> get_clj (request_map CNil ''null'') (CKw None ''body'') = CStr ''null''"
proof -
  let ?w = "start [Inr (sample_response 204 [])]"
  have pre: "client_pre CNil (CKw None ''delete'') CNil (CStr ''card/1'') CNil CNil"
    by (simp add: client_pre_def verbs_def)
  have token: "(if truthy CNil then authenticate sample_env CNil ?w else (Inr CNil, ?w))
                 = (Inr CNil, ?w)"
    by simp
  have body_text: "json_write_str sample_env CNil = Inr ''null''"
    by (simp add: sample_env_simps)
  have full_url: "build_url sample_env (CStr ''card/1'') CNil = Inr ''http://localhost:3000/api/card/1''"
    by (simp add: build_url_def apply_str_def sample_env_simps)
  show ?thesis
    using request_body_written [OF pre token body_text full_url] body_text
    by (simp add: start_def)
qed


subsection \<open>authenticate\<close>

text \<open>
  C6, as the source has it. \<open>authenticate\<close> requires the \<open>:email\<close> and the \<open>:password\<close> of
  the credentials to be strings; the empty string is one. It throws an \<open>AssertionError\<close>
  exactly when one of them is not a string, and then the world is as it was: no request
  has been issued.
\<close>

theorem authenticate_requires_strings:
  "(fst (authenticate E credentials w) = Inl AssertionError)
     = (\<not> (is_string (get_clj credentials (CKw None ''email''))
            \<and> is_string (get_clj credentials (CKw None ''password''))))
   \<and> (\<not> (is_string (get_clj credentials (CKw None ''email''))
            \<and> is_string (get_clj credentials (CKw None ''password''))) \<longrightarrow>
        authenticate E credentials w = (Inl AssertionError, w))"
  using authenticate_not_assertion [of credentials E w] authenticate_pre_fails [of credentials E w]
  by auto

theorem authenticate_requires_strings_witness:
  "authenticate sample_env (CMap [(CKw None ''email'', CInt 5), (CKw None ''password'', CStr ''x'')])
     (start []) = (Inl AssertionError, start [])
   \<and> authenticate sample_env (CMap [(CKw None ''email'', CStr ''a@b.c'')]) (start [])
     = (Inl AssertionError, start [])
   \<and> fst (authenticate sample_env
       (CMap [(CKw None ''email'', CStr ''a@b.c''), (CKw None ''password'', CStr ''x'')]) (start []))
     \<noteq> Inl AssertionError"
  using authenticate_requires_strings
      [of sample_env "CMap [(CKw None ''email'', CInt 5), (CKw None ''password'', CStr ''x'')]" "start []"]
    authenticate_requires_strings
      [of sample_env "CMap [(CKw None ''email'', CStr ''a@b.c'')]" "start []"]
    authenticate_requires_strings
      [of sample_env "CMap [(CKw None ''email'', CStr ''a@b.c''), (CKw None ''password'', CStr ''x'')]"
          "start []"]
  by simp

text \<open>
  C6 as stated asks for non-empty strings. With the empty string for both, \<open>authenticate\<close>
  does not fail: it posts the credentials and returns the token of the response.
\<close>

theorem authenticate_empty_strings_counterexample:
  "authenticate sample_env (CMap [(CKw None ''email'', CStr []), (CKw None ''password'', CStr [])])
     (start [Inr (sample_response 200 ''{\"id\":\"abc\"}'')])
   = (Inr (CStr ''abc''),
      \<lparr>server = [],
       requests = [(CKw None ''post'', ''http://localhost:3000/api/session'',
                    request_map CNil ''{\"email\":\"\",\"password\":\"\"}'')]\<rparr>)"
  by (simp add: run_simps)

text \<open>
  C7. For every credentials map with strings for \<open>:email\<close> and \<open>:password\<close> that
  \<open>json/write-str\<close> writes, \<open>authenticate\<close> calls \<open>client\<close> with \<open>:post\<close>, 200, \<open>session\<close> and
  the map, which \<open>client\<close> passes on to \<open>-client\<close> as the body, with no credentials and
  with 200 as the expected status: nothing authenticates again, and \<open>authenticate\<close>
  returns the \<open>:id\<close> of what that call returns, and \<open>nil\<close> when it throws. Exactly one
  request reaches the transport, a \<open>:post\<close> to the prefix followed by \<open>session\<close>, whose body
  is the written map. For a response of status 200 whose body \<open>json/read-str\<close> accepts,
  \<open>authenticate\<close> returns the \<open>:id\<close> of the parsed body; for a response of any other
  status it returns \<open>nil\<close>, whatever the body holds.
\<close>

theorem authenticate_posts_session:
  assumes email: "is_string (get_clj credentials (CKw None ''email''))"
    and password: "is_string (get_clj credentials (CKw None ''password''))"
    and body_text: "json_write_str E credentials = Inr body_text"
  shows
    "client E [CKw None ''post'', CInt 200, CStr ''session'', credentials] w =
       client_impl E CNil (CKw None ''post'') (CInt 200) (CStr ''session'') credentials CNil w
     \<and> authenticate E credentials w =
         (case client_impl E CNil (CKw None ''post'') (CInt 200) (CStr ''session'') credentials
                 CNil w of
            (Inr r, w1) \<Rightarrow> (Inr (get_clj r (CKw None ''id'')), w1)
          | (Inl t, w1) \<Rightarrow> (Inr CNil, w1))
     \<and> requests (snd (authenticate E credentials w)) =
         requests w @ [(CKw None ''post'', url_prefix E @ ''session'', request_map CNil body_text)]
     \<and> (\<forall>r w1. client E [CKw None ''post'', CInt 200, CStr ''session'', credentials] w = (Inr r, w1)
          \<longrightarrow> authenticate E credentials w = (Inr (get_clj r (CKw None ''id'')), w1))
     \<and> (\<forall>response w1 v.
          perform_request (client_post E) (CKw None ''post'') (url_prefix E @ ''session'')
            (request_map CNil body_text) w = (Inr response, w1)
          \<and> clj_equal (get_clj response (CKw None ''status'')) (CInt 200)
          \<and> json_read_str E (get_clj response (CKw None ''body'')) = Inr v
          \<longrightarrow> authenticate E credentials w
                = (Inr (get_clj (keywordize_keys v) (CKw None ''id'')), w1))
     \<and> (\<forall>response w1.
          perform_request (client_post E) (CKw None ''post'') (url_prefix E @ ''session'')
            (request_map CNil body_text) w = (Inr response, w1)
          \<and> \<not> clj_equal (get_clj response (CKw None ''status'')) (CInt 200)
          \<longrightarrow> authenticate E credentials w = (Inr CNil, w1))"
proof -
  let ?post = "CKw None ''post''"
  have m: "is_map credentials" using email by (rule has_key_is_map)
  have verb: "?post \<in> verbs" by (simp add: verbs_def)
  have f: "request_fn E ?post = Inr (client_post E)" by (simp add: request_fn_def)
  have n: "name_clj ?post = Inr ''post''" by simp
  have one: "client E [?post, CInt 200, CStr ''session'', credentials] w =
       client_impl E CNil ?post (CInt 200) (CStr ''session'') credentials CNil w"
    by (rule client_session [OF m])
  have call: "client E [?post, CInt 200, CStr ''session'', credentials] w =
       client_request E CNil ?post (CInt 200) (CStr ''session'') credentials CNil w"
    by (rule session_call [OF m])
  have expecting: "authenticate E credentials w =
         (case client_impl E CNil ?post (CInt 200) (CStr ''session'') credentials CNil w of
            (Inr r, w1) \<Rightarrow> (Inr (get_clj r (CKw None ''id'')), w1)
          | (Inl t, w1) \<Rightarrow> (Inr CNil, w1))"
    using one call by (simp add: authenticate_valid [OF email password])
  have two: "requests (snd (authenticate E credentials w)) =
         requests w @ [(?post, url_prefix E @ ''session'', request_map CNil body_text)]"
    using client_request_requests [OF body_text verb build_url_session]
    by (simp add: authenticate_snd [OF email password])
  have three: "authenticate E credentials w = (Inr (get_clj r (CKw None ''id'')), w1)"
    if "client E [?post, CInt 200, CStr ''session'', credentials] w = (Inr r, w1)" for r w1
    using that by (simp add: call authenticate_valid [OF email password])
  have four: "authenticate E credentials w = (Inr (get_clj (keywordize_keys v) (CKw None ''id'')), w1)"
    if "perform_request (client_post E) ?post (url_prefix E @ ''session'')
            (request_map CNil body_text) w = (Inr response, w1)"
      and "clj_equal (get_clj response (CKw None ''status'')) (CInt 200)"
      and "json_read_str E (get_clj response (CKw None ''body'')) = Inr v"
    for response w1 v
  proof -
    have "client_request E CNil ?post (CInt 200) (CStr ''session'') credentials CNil w
            = (Inr (keywordize_keys v), w1)"
      using client_request_responded [OF body_text f build_url_session n that(1)] that(2,3)
      by (simp add: check_status_def deserialize_def)
    then show ?thesis
      by (simp add: authenticate_valid [OF email password])
  qed
  have five: "authenticate E credentials w = (Inr CNil, w1)"
    if responded: "perform_request (client_post E) ?post (url_prefix E @ ''session'')
            (request_map CNil body_text) w = (Inr response, w1)"
      and other: "\<not> clj_equal (get_clj response (CKw None ''status'')) (CInt 200)"
    for response w1
  proof -
    have "check_status (toUpperCase ''post'') (url_prefix E @ ''session'') (CInt 200)
            (get_clj response (CKw None ''status'')) \<noteq> None"
      using other by (simp add: check_status_def split: sum.splits)
    then obtain e where "check_status (toUpperCase ''post'') (url_prefix E @ ''session'') (CInt 200)
                      (get_clj response (CKw None ''status'')) = Some e"
      by blast
    then have "client_request E CNil ?post (CInt 200) (CStr ''session'') credentials CNil w
            = (Inl (Exception e), w1)"
      using client_request_responded [OF body_text f build_url_session n responded]
      by simp
    then show ?thesis
      by (simp add: authenticate_valid [OF email password])
  qed
  show ?thesis
    using one expecting two three four five by blast
qed

theorem authenticate_posts_session_witness:
  "authenticate sample_env
     (CMap [(CKw None ''email'', CStr ''a@b.c''), (CKw None ''password'', CStr ''x'')])
     (start [Inr (sample_response 200 ''{\"id\":\"abc\"}'')])
   = (Inr (CStr ''abc''),
      \<lparr>server = [],
       requests = [(CKw None ''post'', ''http://localhost:3000/api/session'',
                    request_map CNil ''{\"email\":\"a@b.c\",\"password\":\"x\"}'')]\<rparr>)
   \<and> authenticate sample_env
     (CMap [(CKw None ''email'', CStr ''a@b.c''), (CKw None ''password'', CStr ''x'')])
     (start [Inr (sample_response 401 ''{\"id\":\"abc\"}'')])
   = (Inr CNil,
      \<lparr>server = [],
       requests = [(CKw None ''post'', ''http://localhost:3000/api/session'',
                    request_map CNil ''{\"email\":\"a@b.c\",\"password\":\"x\"}'')]\<rparr>)"
proof -
  let ?c = "CMap [(CKw None ''email'', CStr ''a@b.c''), (CKw None ''password'', CStr ''x'')]"
  let ?w = "\<lambda>code. start [Inr (sample_response code ''{\"id\":\"abc\"}'')]"
  let ?w1 = "\<lparr>server = [] :: (exn + clj) list,
       requests = [(CKw None ''post'', ''http://localhost:3000/api/session'',
                    request_map CNil ''{\"email\":\"a@b.c\",\"password\":\"x\"}'')]\<rparr>"
  have email: "is_string (get_clj ?c (CKw None ''email''))" by simp
  have password: "is_string (get_clj ?c (CKw None ''password''))" by simp
  have body_text: "json_write_str sample_env ?c = Inr ''{\"email\":\"a@b.c\",\"password\":\"x\"}''"
    by (simp add: sample_env_simps name_if_keyword_def char_escape_string_def)
  have response: "perform_request (client_post sample_env) (CKw None ''post'')
        (url_prefix sample_env @ ''session'')
        (request_map CNil ''{\"email\":\"a@b.c\",\"password\":\"x\"}'') (?w code)
      = (Inr (sample_response code ''{\"id\":\"abc\"}''), ?w1)" for code
    by (simp add: sample_env_simps perform_request_def call_transport_def scripted_def start_def)
  have ok: "clj_equal (get_clj (sample_response 200 ''{\"id\":\"abc\"}'') (CKw None ''status''))
              (CInt 200)"
    by (simp add: sample_response_def)
  have unauthorized:
    "\<not> clj_equal (get_clj (sample_response 401 ''{\"id\":\"abc\"}'') (CKw None ''status''))
              (CInt 200)"
    by (simp add: sample_response_def)
  have parsed: "json_read_str sample_env
        (get_clj (sample_response 200 ''{\"id\":\"abc\"}'') (CKw None ''body''))
      = Inr (CMap [(CStr ''id'', CStr ''abc'')])"
    by (simp add: sample_env_simps sample_response_def sample_read_def sample_documents_def)
  have token: "get_clj (keywordize_keys (CMap [(CStr ''id'', CStr ''abc'')])) (CKw None ''id'')
      = CStr ''abc''"
    by (simp add: into_map_def keywordize_key_def keyword_def)
  have "authenticate sample_env ?c (?w 200)
      = (Inr (get_clj (keywordize_keys (CMap [(CStr ''id'', CStr ''abc'')])) (CKw None ''id'')), ?w1)"
    using authenticate_posts_session [OF email password body_text, of "?w 200"]
      response [of 200] ok parsed
    by blast
  moreover have "authenticate sample_env ?c (?w 401) = (Inr CNil, ?w1)"
    using authenticate_posts_session [OF email password body_text, of "?w 401"]
      response [of 401] unauthorized
    by blast
  ultimately show ?thesis
    unfolding token by simp
qed

subsection \<open>Authentication that fails\<close>

text \<open>
  C3. Take a call of \<open>-client\<close> that passes its precondition, with credentials whose
  \<open>:email\<close> and \<open>:password\<close> are strings. If the call of \<open>client\<close> inside \<open>authenticate\<close>
  throws (a status other than 200, an exception of the transport), or returns a value
  without \<open>:id\<close> (a malformed response), then \<open>authenticate\<close> returns \<open>nil\<close> and throws
  nothing; the call does what the call without credentials does in the world the
  attempt has left; and the main request is issued with \<open>nil\<close> for the session header.
\<close>

theorem authentication_failure_degrades:
  assumes pre: "client_pre credentials method expected_status url http_body url_param_kwargs"
    and email: "is_string (get_clj credentials (CKw None ''email''))"
    and password: "is_string (get_clj credentials (CKw None ''password''))"
    and sub_call: "client E [CKw None ''post'', CInt 200, CStr ''session'', credentials] w = (r, w1)"
    and failed: "(\<exists>t. r = Inl t) \<or> (\<exists>v. r = Inr v \<and> get_clj v (CKw None ''id'') = CNil)"
  shows
    "authenticate E credentials w = (Inr CNil, w1)
     \<and> client_impl E credentials method expected_status url http_body url_param_kwargs w
         = client_impl E CNil method expected_status url http_body url_param_kwargs w1
     \<and> (\<forall>body_text full_url.
           json_write_str E http_body = Inr body_text \<and>
           build_url E url url_param_kwargs = Inr full_url \<longrightarrow>
           requests (snd (client_impl E credentials method expected_status url http_body
                            url_param_kwargs w))
             = requests w1 @ [(method, full_url, request_map CNil body_text)]
           \<and> get_clj (get_clj (request_map CNil body_text) (CKw None ''headers''))
                (CStr ''X-METABASE-SESSION'') = CNil)"
proof -
  have m: "is_map credentials" using email by (rule has_key_is_map)
  then have supplied: "truthy credentials" by (cases credentials) simp_all
  have call: "client_request E CNil (CKw None ''post'') (CInt 200) (CStr ''session'') credentials
                CNil w = (r, w1)"
    using sub_call by (simp add: session_call [OF m])
  have auth: "authenticate E credentials w = (Inr CNil, w1)"
    using failed call by (auto simp: authenticate_valid [OF email password])
  then have token: "(if truthy credentials then authenticate E credentials w else (Inr CNil, w))
                      = (Inr CNil, w1)"
    using supplied by simp
  have with_credentials:
    "client_impl E credentials method expected_status url http_body url_param_kwargs w
       = client_request E CNil method expected_status url http_body url_param_kwargs w1"
    by (rule client_impl_token [OF pre token])
  have without_credentials:
    "client_impl E CNil method expected_status url http_body url_param_kwargs w1
       = client_request E CNil method expected_status url http_body url_param_kwargs w1"
    by (rule client_impl_token [OF client_pre_without_credentials [OF pre]]) simp
  have verb: "method \<in> verbs" using pre by (simp add: client_pre_def)
  have sent: "requests (snd (client_impl E credentials method expected_status url http_body
                            url_param_kwargs w))
             = requests w1 @ [(method, full_url, request_map CNil body_text)]"
    if "json_write_str E http_body = Inr body_text" "build_url E url url_param_kwargs = Inr full_url"
    for body_text full_url
    using client_request_requests [OF that(1) verb that(2)] with_credentials by simp
  have header: "get_clj (get_clj (request_map CNil body_text) (CKw None ''headers''))
                (CStr ''X-METABASE-SESSION'') = CNil" for body_text
    by (simp add: request_map_def)
  show ?thesis
    using auth with_credentials without_credentials sent header by simp
qed

theorem authentication_failure_degrades_witness:
  "client_impl sample_env
     (CMap [(CKw None ''email'', CStr ''a@b.c''), (CKw None ''password'', CStr ''x'')])
     (CKw None ''get'') CNil (CStr ''card/1'') CNil CNil
     (start [Inr (sample_response 401 ''Unauthorized''), Inr (sample_response 403 ''Forbidden'')])
   = (Inr (CStr ''Forbidden''),
      \<lparr>server = [],
       requests = [(CKw None ''post'', ''http://localhost:3000/api/session'',
                    request_map CNil ''{\"email\":\"a@b.c\",\"password\":\"x\"}''),
                   (CKw None ''get'', ''http://localhost:3000/api/card/1'',
                    request_map CNil ''null'')]\<rparr>)"
proof -
  let ?c = "CMap [(CKw None ''email'', CStr ''a@b.c''), (CKw None ''password'', CStr ''x'')]"
  let ?w = "start [Inr (sample_response 401 ''Unauthorized''), Inr (sample_response 403 ''Forbidden'')]"
  let ?w1 = "\<lparr>server = [Inr (sample_response 403 ''Forbidden'')] :: (exn + clj) list,
       requests = [(CKw None ''post'', ''http://localhost:3000/api/session'',
                    request_map CNil ''{\"email\":\"a@b.c\",\"password\":\"x\"}'')]\<rparr>"
  let ?failure = "Exception (JavaException ''java.lang.Exception''
     ''POST http://localhost:3000/api/session expected a status code of 200, got 401'')"
  have pre: "client_pre ?c (CKw None ''get'') CNil (CStr ''card/1'') CNil CNil"
    by (simp add: client_pre_def verbs_def)
  have email: "is_string (get_clj ?c (CKw None ''email''))" by simp
  have password: "is_string (get_clj ?c (CKw None ''password''))" by simp
  have sub_call: "client sample_env [CKw None ''post'', CInt 200, CStr ''session'', ?c] ?w
                    = (Inl ?failure, ?w1)"
    by (simp add: run_simps)
  have failed: "(\<exists>t. (Inl ?failure :: throwable + clj) = Inl t)
                \<or> (\<exists>v. Inl ?failure = Inr v \<and> get_clj v (CKw None ''id'') = CNil)"
    by simp
  have unauthenticated:
    "client_impl sample_env CNil (CKw None ''get'') CNil (CStr ''card/1'') CNil CNil ?w1
     = (Inr (CStr ''Forbidden''),
      \<lparr>server = [],
       requests = [(CKw None ''post'', ''http://localhost:3000/api/session'',
                    request_map CNil ''{\"email\":\"a@b.c\",\"password\":\"x\"}''),
                   (CKw None ''get'', ''http://localhost:3000/api/card/1'',
                    request_map CNil ''null'')]\<rparr>)"
    by (simp add: run_simps)
  show ?thesis
    using authentication_failure_degrades [OF pre email password sub_call failed] unauthenticated
    by simp
qed


end
